theory Spec2Isabelle
  imports Main "HOL-Library.Sublist" "HOL-Library.Word"
begin

section \<open>The remote test client of the video generation API (scripts/test-remote.js)\<close>

text \<open>
  The script signs a request, submits a job, polls the job until it is terminal and
  downloads the produced file.  Every function of the script is embedded as a HOL
  function.  A thrown \<^verbatim>\<open>Error(message)\<close> is the value \<open>Inl (Error message)\<close>;
  the clock, the requests issued, the console and the file system are fields of an
  explicit \<open>world\<close> that each effectful function takes and returns.

  A string is held by the bytes of its UTF-8 encoding, which is also what the HMAC is
  computed over.  A number is held by the integer it denotes; the script only computes
  with numbers that are integers.
\<close>

subsection \<open>Values\<close>

datatype error = Error string

text \<open>
  The values found in a request body.  An object is the list of the assignments that
  built it; \<open>JUndefined\<close> is the value \<^verbatim>\<open>undefined\<close> of a property.
\<close>

datatype json =
    JUndefined
  | JNull
  | JBool bool
  | JNumber int
  | JString string
  | JArray "json list"
  | JObject "(string \<times> json) list"

type_synonym body = "(string \<times> json) list"

type_synonym byte = "8 word"

text \<open>
  What the script takes from its process and from the libraries it calls:
  \<^item> \<open>REMOTE_URL\<close> is \<^verbatim>\<open>process.argv[2]\<close> and \<open>HMAC_SECRET\<close> is
    \<^verbatim>\<open>process.env.HMAC_SECRET\<close>; \<open>None\<close> is \<^verbatim>\<open>undefined\<close>;
  \<^item> \<open>hmac_sha256 key message\<close> is the digest of
    \<^verbatim>\<open>crypto.createHmac('sha256', key).update(message)\<close>, 32 bytes read as one
    big-endian number;
  \<^item> \<open>URL_parses u\<close> holds when \<^verbatim>\<open>new URL(u)\<close> does not throw;
  \<^item> \<open>OUTPUT_FILE\<close> is the path
    \<^verbatim>\<open>path.join(__dirname, '..', 'test-output-remote.mp4')\<close>.
\<close>

record ambient =
  REMOTE_URL :: "string option"
  HMAC_SECRET :: "string option"
  hmac_sha256 :: "string \<Rightarrow> string \<Rightarrow> 256 word"
  URL_parses :: "string \<Rightarrow> bool"
  OUTPUT_FILE :: string

definition POLL_INTERVAL_MS :: int where
  "POLL_INTERVAL_MS = 5000"

definition MAX_TIMEOUT_MS :: int where
  "MAX_TIMEOUT_MS = 5 * 60 * 1000"

subsection \<open>Numbers and their strings\<close>

definition digit_char :: "nat \<Rightarrow> char" where
  "digit_char d = ''0123456789'' ! d"

text \<open>The decimal numeral of a natural number.\<close>

function digits :: "int \<Rightarrow> string" where
  "digits n =
     (if n < 10 then [digit_char (nat n)] else digits (n div 10) @ [digit_char (nat (n mod 10))])"
  by pat_completeness auto
termination
  by (relation "measure nat") auto

declare digits.simps [simp del]

text \<open>The decimal string of an integer, as the specification has it.\<close>

definition decimal :: "int \<Rightarrow> string" where
  "decimal i = (if i < 0 then CHR ''-'' # digits (- i) else digits i)"

text \<open>
  A JavaScript number is a double.  \<open>round_to_53 n\<close> is the double nearest to the
  natural number \<open>n\<close>, ties to the even mantissa: the number that a literal or a
  computation with the value \<open>n\<close> yields.  From \<open>2^1024\<close> on it stands for
  \<^verbatim>\<open>Infinity\<close>.
\<close>

function bit_length :: "int \<Rightarrow> nat" where
  "bit_length n = (if n \<le> 0 then 0 else Suc (bit_length (n div 2)))"
  by pat_completeness auto
termination
  by (relation "measure nat") auto

declare bit_length.simps [simp del]

definition round_to_53 :: "int \<Rightarrow> int" where
  "round_to_53 n =
     (if n < 2 ^ 53 then n
      else
        let e = bit_length n - 53;
            q = n div 2 ^ e;
            r = n mod 2 ^ e
        in (if 2 ^ (e - 1) < r \<or> (r = 2 ^ (e - 1) \<and> odd q) then q + 1 else q) * 2 ^ e)"

text \<open>
  \<^verbatim>\<open>Number::toString\<close> of a number from \<open>2^53\<close> on prints the integer with the
  fewest significant digits that still reads back as the same number (the closest one,
  if there are two).  \<open>shortest_from e x\<close> looks for it among the multiples of
  \<open>10^e\<close> next to \<open>x\<close>, for \<open>e\<close> downwards.
\<close>

fun shortest_from :: "nat \<Rightarrow> int \<Rightarrow> int" where
  "shortest_from 0 x = x"
| "shortest_from (Suc e) x =
     (let p = 10 ^ Suc e;
          lo = (x div p) * p;
          hi = lo + p
      in if round_to_53 lo = x \<and> round_to_53 hi = x
         then (if x - lo < hi - x then lo
               else if hi - x < x - lo then hi
               else if even (x div p) then lo else hi)
         else if round_to_53 lo = x then lo
         else if round_to_53 hi = x then hi
         else shortest_from e x)"

definition shortest :: "int \<Rightarrow> int" where
  "shortest x = shortest_from (length (digits x) - 1) x"

text \<open>Exponent notation, used from 22 digits on: \<^verbatim>\<open>1e+21\<close>, \<^verbatim>\<open>1.5e+300\<close>.\<close>

definition exponential :: "string \<Rightarrow> string" where
  "exponential ds =
     (let significant = rev (dropWhile (\<lambda>c. c = CHR ''0'') (rev ds))
      in (if length significant = 1 then significant
          else hd significant # CHR ''.'' # tl significant)
         @ ''e+'' @ digits (int (length ds) - 1))"

definition render :: "int \<Rightarrow> string" where
  "render v = (let ds = digits v in if length ds \<le> 21 then ds else exponential ds)"

definition Number_toString :: "int \<Rightarrow> string" where
  "Number_toString n =
     (if n < 2 ^ 53 then digits n
      else if 2 ^ 1024 \<le> round_to_53 n then ''Infinity''
      else render (shortest (round_to_53 n)))"

text \<open>
  \<^verbatim>\<open>String(n)\<close>, \<^verbatim>\<open>n.toString()\<close> and \<^verbatim>\<open>${n}\<close> for a number \<open>n\<close>
  that is an integer.
\<close>

definition String_of :: "int \<Rightarrow> string" where
  "String_of i = (if i < 0 then CHR ''-'' # Number_toString (- i) else Number_toString i)"

text \<open>The integers that are numbers: a double holds them exactly.\<close>

definition is_number :: "int \<Rightarrow> bool" where
  "is_number i = (round_to_53 \<bar>i\<bar> = \<bar>i\<bar> \<and> \<bar>i\<bar> < 2 ^ 1024)"

text \<open>Reading a decimal numeral back.\<close>

definition digit_value :: "char \<Rightarrow> int" where
  "digit_value c = int (of_char c) - 48"

definition numeral_value :: "string \<Rightarrow> int" where
  "numeral_value s = foldl (\<lambda>a c. 10 * a + digit_value c) 0 s"

definition is_digit :: "char \<Rightarrow> bool" where
  "is_digit c = (48 \<le> (of_char c :: nat) \<and> (of_char c :: nat) \<le> 57)"

text \<open>
  \<^verbatim>\<open>Math.round((d / t) * 100)\<close> for a byte count \<open>d\<close> and a total \<open>t\<close> other
  than zero, in the arithmetic of doubles: the quotient is rounded to 53 bits, its
  product with 100 is rounded again, and \<^verbatim>\<open>Math.round\<close> takes the nearest integer,
  a half upwards.  With \<open>k\<close> binary places, \<open>Q\<close> and \<open>R\<close> are quotient and
  remainder of \<open>d * 2^k\<close> by \<open>\<bar>t\<bar>\<close>.
\<close>

definition percentage_of :: "int \<Rightarrow> int \<Rightarrow> int" where
  "percentage_of d t =
     (if d \<le> 0 \<or> t = 0 then 0
      else
        let a = d;
            b = \<bar>t\<bar>;
            k = (54 + bit_length b) - bit_length a;
            Q = (a * 2 ^ k) div b;
            R = (a * 2 ^ k) mod b;
            e = bit_length Q - 53;
            q = Q div 2 ^ e;
            rest = (Q mod 2 ^ e) * b + R;
            half = 2 ^ (e - 1) * b;
            m = (if half < rest \<or> (rest = half \<and> odd q) then q + 1 else q);
            M = round_to_53 (m * 100) * 2 ^ e
        in ((if t < 0 then - 2 * M else 2 * M) + 2 ^ k) div 2 ^ (k + 1))"

text \<open>
  \<^verbatim>\<open>hmac.digest('hex')\<close>: two lowercase hexadecimal digits for each of the 32
  bytes, the first byte first.
\<close>

definition hex_char :: "nat \<Rightarrow> char" where
  "hex_char d = ''0123456789abcdef'' ! d"

fun hex_digits :: "nat \<Rightarrow> nat \<Rightarrow> string" where
  "hex_digits 0 n = []"
| "hex_digits (Suc k) n = hex_digits k (n div 16) @ [hex_char (n mod 16)]"

definition digest_hex :: "256 word \<Rightarrow> string" where
  "digest_hex w = hex_digits 64 (unat w)"

text \<open>Reading a lowercase hexadecimal numeral back.\<close>

definition hex_value :: "char \<Rightarrow> nat" where
  "hex_value c = (if of_char c < (58::nat) then of_char c - 48 else of_char c - 87)"

definition hex_numeral_value :: "string \<Rightarrow> nat" where
  "hex_numeral_value s = foldl (\<lambda>a c. 16 * a + hex_value c) 0 s"

text \<open>\<^verbatim>\<open>a || b\<close> on an optional string: absent and empty strings are falsy.\<close>

definition or_else :: "string option \<Rightarrow> string \<Rightarrow> string" where
  "or_else a b = (case a of None \<Rightarrow> b | Some s \<Rightarrow> if s = [] then b else s)"

definition truthy :: "string option \<Rightarrow> bool" where
  "truthy a = (case a of None \<Rightarrow> False | Some s \<Rightarrow> s \<noteq> [])"

text \<open>An optional string inside a template literal: \<^verbatim>\<open>undefined\<close> prints its name.\<close>

definition template :: "string option \<Rightarrow> string" where
  "template a = (case a of None \<Rightarrow> ''undefined'' | Some s \<Rightarrow> s)"

text \<open>
  \<^verbatim>\<open>parseInt(s, 10)\<close>: leading white space is skipped (here the white space of
  ASCII and the no-break space), a sign is read, then the longest run of decimal
  digits, whose value becomes a number; \<open>None\<close> is \<^verbatim>\<open>NaN\<close>, which is also the
  result for an absent header.
\<close>

fun skip_space :: "string \<Rightarrow> string" where
  "skip_space [] = []"
| "skip_space [c] =
     (if c \<in> set [CHR '' '', CHR 0x09, CHR 0x0A, CHR 0x0B, CHR 0x0C, CHR 0x0D] then [] else [c])"
| "skip_space (c # d # s) =
     (if c \<in> set [CHR '' '', CHR 0x09, CHR 0x0A, CHR 0x0B, CHR 0x0C, CHR 0x0D]
      then skip_space (d # s)
      else if c = CHR 0xC2 \<and> d = CHR 0xA0 then skip_space s
      else c # d # s)"

definition parseInt :: "string option \<Rightarrow> int option" where
  "parseInt header =
     (case header of
        None \<Rightarrow> None
      | Some s \<Rightarrow>
          let t = skip_space s;
              negative = (t \<noteq> [] \<and> hd t = CHR ''-'');
              r = (if t \<noteq> [] \<and> (hd t = CHR ''-'' \<or> hd t = CHR ''+'') then tl t else t);
              ds = takeWhile is_digit r
          in if ds = [] then None
             else Some ((if negative then - 1 else 1) * round_to_53 (numeral_value ds)))"

subsection \<open>JSON.stringify\<close>

text \<open>
  The properties of the object that a list of assignments builds: a later assignment
  to a key replaces the value and keeps the place; array indices come first, in
  ascending order, then the other keys in the order of their first assignment.
\<close>

fun assign :: "(string \<times> 'a) list \<Rightarrow> string \<Rightarrow> 'a \<Rightarrow> (string \<times> 'a) list" where
  "assign [] k v = [(k, v)]"
| "assign (p # ps) k v = (if fst p = k then (k, v) # ps else p # assign ps k v)"

definition is_array_index :: "string \<Rightarrow> bool" where
  "is_array_index k =
     (k \<noteq> [] \<and> list_all is_digit k \<and> (length k = 1 \<or> hd k \<noteq> CHR ''0'')
      \<and> numeral_value k < 2 ^ 32 - 1)"

definition own_properties :: "(string \<times> 'a) list \<Rightarrow> (string \<times> 'a) list" where
  "own_properties ps =
     (let assigned = foldl (\<lambda>object p. assign object (fst p) (snd p)) [] ps
      in sort_key (\<lambda>p. numeral_value (fst p)) (filter (\<lambda>p. is_array_index (fst p)) assigned)
         @ filter (\<lambda>p. \<not> is_array_index (fst p)) assigned)"

text \<open>\<^verbatim>\<open>QuoteJSONString\<close>: the quote, the backslash and the control characters are escaped.\<close>

definition escape :: "char \<Rightarrow> string" where
  "escape c =
     (if c = CHR 0x22 then [CHR 0x5C, CHR 0x22]
      else if c = CHR 0x5C then [CHR 0x5C, CHR 0x5C]
      else if c = CHR 0x08 then [CHR 0x5C, CHR ''b'']
      else if c = CHR 0x0C then [CHR 0x5C, CHR ''f'']
      else if c = CHR 0x0A then [CHR 0x5C, CHR ''n'']
      else if c = CHR 0x0D then [CHR 0x5C, CHR ''r'']
      else if c = CHR 0x09 then [CHR 0x5C, CHR ''t'']
      else if (of_char c :: nat) < 32
      then [CHR 0x5C, CHR ''u'', CHR ''0'', CHR ''0'', hex_char (of_char c div 16),
            hex_char (of_char c mod 16)]
      else [c])"

definition quote :: "string \<Rightarrow> string" where
  "quote s = CHR 0x22 # concat (map escape s) @ [CHR 0x22]"

fun join :: "string list \<Rightarrow> string" where
  "join [] = []"
| "join [x] = x"
| "join (x # y # ys) = x @ CHR '','' # join (y # ys)"

text \<open>
  \<open>None\<close> is the result \<^verbatim>\<open>undefined\<close>: a property with such a value is left
  out of an object, an element with such a value is \<^verbatim>\<open>null\<close> in an array.
\<close>

fun serialize :: "json \<Rightarrow> string option" where
  "serialize JUndefined = None"
| "serialize JNull = Some ''null''"
| "serialize (JBool b) = Some (if b then ''true'' else ''false'')"
| "serialize (JNumber n) =
     Some (if 2 ^ 1024 \<le> round_to_53 \<bar>n\<bar> then ''null'' else String_of n)"
| "serialize (JString s) = Some (quote s)"
| "serialize (JArray xs) =
     Some (CHR ''['' # join (map (\<lambda>x. case serialize x of None \<Rightarrow> ''null'' | Some s \<Rightarrow> s) xs)
           @ '']'')"
| "serialize (JObject ps) =
     Some (CHR ''{''
           # join (concat (map (\<lambda>p. case snd p of None \<Rightarrow> []
                                      | Some s \<Rightarrow> [quote (fst p) @ CHR '':'' # s])
                             (own_properties (map (\<lambda>p. (fst p, serialize (snd p))) ps))))
           @ ''}'')"

definition JSON_stringify :: "body \<Rightarrow> string" where
  "JSON_stringify b = (case serialize (JObject b) of None \<Rightarrow> ''undefined'' | Some s \<Rightarrow> s)"

subsection \<open>validateUrl\<close>

text \<open>\<^verbatim>\<open>url.replace(/\/$/, '')\<close>: one slash at the very end of the string is dropped.\<close>

definition remove_trailing_slash :: "string \<Rightarrow> string" where
  "remove_trailing_slash url = (if url \<noteq> [] \<and> last url = CHR ''/'' then butlast url else url)"

definition validateUrl :: "ambient \<Rightarrow> string option \<Rightarrow> error + string" where
  "validateUrl rt url =
     (case url of
        None \<Rightarrow> Inl (Error ''URL is required'')
      | Some u0 \<Rightarrow>
          if u0 = [] then Inl (Error ''URL is required'')
          else
            let u1 = remove_trailing_slash u0;
                u2 = (if \<not> prefix ''http://'' u1 \<and> \<not> prefix ''https://'' u1
                      then ''https://'' @ u1 else u1)
            in if URL_parses rt u2 then Inr u2
               else Inl (Error (''Invalid URL format: '' @ u2)))"

text \<open>
  The normal form as the specification words it: the prefix test reads the input
  itself, the slash is removed from the input.
\<close>

definition spec_normal_form :: "string \<Rightarrow> string" where
  "spec_normal_form u =
     (if \<not> prefix ''http://'' u \<and> \<not> prefix ''https://'' u
      then ''https://'' @ remove_trailing_slash u else remove_trailing_slash u)"

subsection \<open>generateSignature\<close>

text \<open>The message that is signed: \<^verbatim>\<open>`${timestampStr}:${bodyStr}`\<close>.\<close>

definition signed_message :: "int \<Rightarrow> body \<Rightarrow> string" where
  "signed_message timestamp b = String_of timestamp @ '':'' @ JSON_stringify b"

text \<open>
  The \<^verbatim>\<open>Hmac\<close> object of the crypto library: it keeps its key and the data
  given to it so far.
\<close>

record hmac_object =
  hmac_key :: string
  hmac_data :: string

definition createHmac :: "string \<Rightarrow> hmac_object" where
  "createHmac key = \<lparr>hmac_key = key, hmac_data = []\<rparr>"

definition update :: "hmac_object \<Rightarrow> string \<Rightarrow> hmac_object" where
  "update h message = h\<lparr>hmac_data := hmac_data h @ message\<rparr>"

definition digest :: "ambient \<Rightarrow> hmac_object \<Rightarrow> string" where
  "digest rt h = digest_hex (hmac_sha256 rt (hmac_key h) (hmac_data h))"

definition generateSignature :: "ambient \<Rightarrow> int \<Rightarrow> body \<Rightarrow> error + string" where
  "generateSignature rt timestamp b =
     (case HMAC_SECRET rt of
        None \<Rightarrow> Inl (Error ''HMAC_SECRET environment variable is not set'')
      | Some secret \<Rightarrow>
          if secret = [] then Inl (Error ''HMAC_SECRET environment variable is not set'')
          else
            let timestampStr = String_of timestamp;
                bodyStr = JSON_stringify b;
                message = timestampStr @ '':'' @ bodyStr;
                hmac = update (createHmac secret) message
            in Inr (digest rt hmac))"

subsection \<open>The world outside the script\<close>

datatype printed = Info string | Progress string int

record config =
  http_method :: string
  url :: "string option"
  headers :: "(string \<times> string) list"
  data :: "body option"
  timeout :: nat
  responseType :: "string option"

text \<open>
  How an axios call ends: with the response data, with a response of error status
  (its status and the \<^verbatim>\<open>message\<close> and \<^verbatim>\<open>error\<close> fields of its data),
  with no response (\<^verbatim>\<open>error.code\<close> and \<^verbatim>\<open>error.message\<close>), or before
  the request was set up.
\<close>

datatype 'r axios_outcome =
    Ok 'r
  | ErrResponse nat "string option" "string option"
  | ErrRequest "string option" string
  | ErrSetup string

text \<open>The fields of a job the script reads.\<close>

record job =
  status :: string
  progress :: "int option"
  currentStep :: "string option"
  error :: "string option"
  downloadUrl :: "string option"

record created =
  jobId :: "string option"

text \<open>
  Of the health report the script only prints fields; printing fails when the
  \<^verbatim>\<open>worker\<close> or the \<^verbatim>\<open>jobs\<close> object is missing.
\<close>

record health =
  has_worker :: bool
  has_jobs :: bool

text \<open>
  A streamed response: its \<^verbatim>\<open>content-length\<close> header, the chunks that arrive
  and are written to the opened file, none of them empty in a stream of bytes, and how
  the copy ends: the source stream ends, the source stream reports an error (the
  connection is lost), or the write stream reports one.
\<close>

datatype ending = End | SocketError string | DiskError string

record download =
  content_length :: "string option"
  chunks :: "byte list list"
  ending :: ending

text \<open>
  The remote service and the timing of the run.  The \<open>n\<close>-th request of a run
  (counted from 0) is answered by the endpoint's function at \<open>n\<close> and the
  configuration sent; it takes \<open>latency n\<close> milliseconds, and the timer set after it
  fires \<open>lag n\<close> milliseconds late.
\<close>

record env =
  health_ep :: "nat \<Rightarrow> config \<Rightarrow> health axios_outcome"
  create_ep :: "nat \<Rightarrow> config \<Rightarrow> created axios_outcome"
  status_ep :: "nat \<Rightarrow> config \<Rightarrow> job axios_outcome"
  download_ep :: "nat \<Rightarrow> config \<Rightarrow> download axios_outcome"
  latency :: "nat \<Rightarrow> nat"
  lag :: "nat \<Rightarrow> nat"

text \<open>
  \<open>now\<close> is \<^verbatim>\<open>Date.now()\<close>, a time in milliseconds, which JavaScript keeps
  within \<open>8.64 * 10^15\<close> of the epoch; \<open>sent\<close> lists the requests issued with the time
  each was sent; \<open>console\<close> lists what \<^verbatim>\<open>logInfo\<close> and \<^verbatim>\<open>logProgress\<close>
  printed while polling and downloading; \<open>files\<close> is the file system.
\<close>

record world =
  now :: int
  sent :: "(int \<times> config) list"
  console :: "printed list"
  files :: "string \<Rightarrow> byte list option"

definition axios ::
  "env \<Rightarrow> (nat \<Rightarrow> config \<Rightarrow> 'r axios_outcome) \<Rightarrow> config \<Rightarrow> world \<Rightarrow> 'r axios_outcome \<times> world" where
  "axios env ep cfg w =
     (let n = length (sent w)
      in (ep n cfg, w\<lparr>now := now w + int (latency env n), sent := sent w @ [(now w, cfg)]\<rparr>))"

definition sleep :: "env \<Rightarrow> int \<Rightarrow> world \<Rightarrow> world" where
  "sleep env ms w = w\<lparr>now := now w + ms + int (lag env (length (sent w)))\<rparr>"

definition logInfo :: "string \<Rightarrow> world \<Rightarrow> world" where
  "logInfo message w = w\<lparr>console := console w @ [Info message]\<rparr>"

definition valid_time :: "int \<Rightarrow> bool" where
  "valid_time t = (\<bar>t\<bar> \<le> 8640000000000000)"

text \<open>
  \<^verbatim>\<open>logProgress\<close> draws a bar of 30 cells, \<open>filledLength\<close> of them filled
  (\<^verbatim>\<open>Math.round((barLength * percentage) / 100)\<close>), with
  \<^verbatim>\<open>String.prototype.repeat\<close>, which throws a \<^verbatim>\<open>RangeError\<close> for a negative
  count and for a string beyond the longest one (\<open>2^29 - 24\<close> characters); nothing is
  printed then.
\<close>

definition logProgress :: "string \<Rightarrow> int \<Rightarrow> world \<Rightarrow> error + world" where
  "logProgress message percentage w =
     (let barLength = 30;
          filledLength = (barLength * percentage + 50) div 100
      in if filledLength < 0 then Inl (Error (''Invalid count value: '' @ String_of filledLength))
         else if 2 ^ 29 - 24 < filledLength then Inl (Error ''Invalid string length'')
         else if barLength < filledLength
         then Inl (Error (''Invalid count value: '' @ String_of (barLength - filledLength)))
         else Inr (w\<lparr>console := console w @ [Progress message percentage]\<rparr>))"

subsection \<open>makeAuthenticatedRequest\<close>

definition makeAuthenticatedRequest ::
  "ambient \<Rightarrow> env \<Rightarrow> (nat \<Rightarrow> config \<Rightarrow> 'r axios_outcome) \<Rightarrow> string \<Rightarrow> string \<Rightarrow> body option
     \<Rightarrow> world \<Rightarrow> (error + 'r) \<times> world" where
  "makeAuthenticatedRequest rt env ep meth endpoint body w =
     (let timestamp = now w div 1000;
          config = \<lparr>http_method = meth,
                    url = Some (template (REMOTE_URL rt) @ endpoint),
                    headers = [(''Content-Type'', ''application/json''),
                               (''X-Timestamp'', String_of timestamp)],
                    data = None, timeout = 30000, responseType = None\<rparr>;
          signed =
            (case body of
               None \<Rightarrow> Inr config
             | Some b \<Rightarrow>
                 (case generateSignature rt timestamp b of
                    Inl e \<Rightarrow> Inl e
                  | Inr signature \<Rightarrow>
                      Inr (config\<lparr>data := Some b,
                                  headers := headers config @ [(''X-Signature'', signature)]\<rparr>)))
      in case signed of
           Inl e \<Rightarrow> (Inl e, w)
         | Inr config' \<Rightarrow>
             (case axios env ep config' w of
                (Ok d, w') \<Rightarrow> (Inr d, w')
              | (ErrResponse st msg err, w') \<Rightarrow>
                  (Inl (Error (''API Error ('' @ String_of (int st) @ ''): ''
                               @ or_else msg (or_else err ''Unknown error''))), w')
              | (ErrRequest code msg, w') \<Rightarrow>
                  (Inl (Error ''Network Error: No response from server. Is the API accessible?''), w')
              | (ErrSetup msg, w') \<Rightarrow> (Inl (Error (''Request Error: '' @ msg)), w')))"

subsection \<open>pollJobStatus\<close>

text \<open>What the block under \<^verbatim>\<open>// Show progress if changed\<close> prints for a job.\<close>

definition show_progress :: "job \<Rightarrow> world \<Rightarrow> error + world" where
  "show_progress job w =
     (if status job = ''processing'' \<and> truthy (currentStep job)
      then logProgress (or_else (currentStep job) [])
             (case progress job of None \<Rightarrow> 0 | Some p \<Rightarrow> p) w
      else if status job = ''pending'' then Inr (logInfo ''Job is pending...'' w)
      else Inr w)"

definition changed :: "job \<Rightarrow> string option \<Rightarrow> int option \<Rightarrow> bool" where
  "changed job lastStatus lastProgress =
     (Some (status job) \<noteq> lastStatus \<or> progress job \<noteq> lastProgress)"

function poll_loop ::
  "ambient \<Rightarrow> env \<Rightarrow> string option \<Rightarrow> int \<Rightarrow> string option \<Rightarrow> int option \<Rightarrow> world
     \<Rightarrow> (error + job) \<times> world" where
  "poll_loop rt env job_id startTime lastStatus lastProgress w =
     (if now w - startTime > MAX_TIMEOUT_MS
      then (Inl (Error ''Timeout: Job did not complete within 5 minutes''), w)
      else
        case makeAuthenticatedRequest rt env (status_ep env) ''GET''
               (''/job/'' @ template job_id) None w of
          (Inl e, w1) \<Rightarrow> (Inl e, w1)
        | (Inr job, w1) \<Rightarrow>
            (case (if changed job lastStatus lastProgress then show_progress job w1 else Inr w1) of
               Inl e \<Rightarrow> (Inl e, w1)
             | Inr w2 \<Rightarrow>
                 let lastStatus' =
                       (if changed job lastStatus lastProgress then Some (status job)
                        else lastStatus);
                     lastProgress' =
                       (if changed job lastStatus lastProgress then progress job
                        else lastProgress)
                 in if status job = ''completed'' then (Inr job, w2)
                    else if status job = ''failed''
                    then (Inl (Error (''Job failed: '' @ or_else (error job) ''Unknown error'')),
                          w2)
                    else poll_loop rt env job_id startTime lastStatus' lastProgress'
                           (sleep env POLL_INTERVAL_MS w2)))"
  by pat_completeness auto

text \<open>
  The loop always ends: time does not run backwards during a request, and the timer
  between two iterations takes at least the poll interval.
\<close>

lemma now_axios: "axios env ep cfg w = (r, w') \<Longrightarrow> now w \<le> now w'"
  by (auto simp: axios_def Let_def)

lemma now_makeAuthenticatedRequest:
  "makeAuthenticatedRequest rt env ep meth endpoint body w = (r, w') \<Longrightarrow> now w \<le> now w'"
  by (auto simp: makeAuthenticatedRequest_def Let_def
      split: sum.splits option.splits prod.splits axios_outcome.splits dest: now_axios)

lemma now_show_progress: "show_progress job w = Inr w' \<Longrightarrow> now w' = now w"
  by (auto simp: show_progress_def logProgress_def logInfo_def Let_def split: if_splits)

lemma now_sleep: "now (sleep env ms w) = now w + ms + int (lag env (length (sent w)))"
  by (simp add: sleep_def)

termination poll_loop
proof (relation "measure (\<lambda>(rt, env, job_id, startTime, lastStatus, lastProgress, w).
                   nat (MAX_TIMEOUT_MS + 1 - (now w - startTime)))", goal_cases)
  case 1
  show ?case by simp
next
  case (2 rt env job_id startTime lastStatus lastProgress w x1 x2 job w2 lastStatus' lastProgress')
  then show ?case
    by (auto simp: now_sleep POLL_INTERVAL_MS_def split: if_splits
        dest!: sym [of "(_, _)"] now_makeAuthenticatedRequest now_show_progress)
qed

declare poll_loop.simps [simp del]

definition pollJobStatus ::
  "ambient \<Rightarrow> env \<Rightarrow> string option \<Rightarrow> world \<Rightarrow> (error + job) \<times> world" where
  "pollJobStatus rt env job_id w = poll_loop rt env job_id (now w) None (Some 0) w"

subsection \<open>downloadFile\<close>

definition createWriteStream :: "string \<Rightarrow> world \<Rightarrow> world" where
  "createWriteStream outputPath w = w\<lparr>files := (files w)(outputPath \<mapsto> [])\<rparr>"

definition write_chunk :: "string \<Rightarrow> byte list \<Rightarrow> world \<Rightarrow> world" where
  "write_chunk outputPath chunk w =
     w\<lparr>files := (files w)(outputPath \<mapsto>
          (case files w outputPath of None \<Rightarrow> chunk | Some written \<Rightarrow> written @ chunk))\<rparr>"

text \<open>
  The two \<^verbatim>\<open>'data'\<close> listeners, run for each chunk: the pipe writes the chunk to
  the file, the handler adds its length to \<open>downloadedBytes\<close> and prints the
  percentage when \<open>totalBytes\<close> is a number other than zero.  An error thrown while
  printing is not caught by anything: the process ends with it.
\<close>

definition report :: "int option \<Rightarrow> int \<Rightarrow> world \<Rightarrow> error + world" where
  "report totalBytes downloadedBytes w =
     (case totalBytes of
        None \<Rightarrow> Inr w
      | Some t \<Rightarrow>
          if t = 0 then Inr w
          else logProgress ''Downloading video'' (percentage_of downloadedBytes t) w)"

fun on_data ::
  "int option \<Rightarrow> string \<Rightarrow> byte list list \<Rightarrow> int \<Rightarrow> world \<Rightarrow> (error + int) \<times> world" where
  "on_data totalBytes outputPath [] downloadedBytes w = (Inr downloadedBytes, w)"
| "on_data totalBytes outputPath (chunk # rest) downloadedBytes w =
     (let w1 = write_chunk outputPath chunk w;
          downloadedBytes' = downloadedBytes + int (length chunk)
      in case report totalBytes downloadedBytes' w1 of
           Inl e \<Rightarrow> (Inl e, w1)
         | Inr w2 \<Rightarrow> on_data totalBytes outputPath rest downloadedBytes' w2)"

text \<open>The message of the error axios itself throws.\<close>

definition axios_error :: "'r axios_outcome \<Rightarrow> error" where
  "axios_error outcome =
     (case outcome of
        Ok d \<Rightarrow> Error []
      | ErrResponse st msg err \<Rightarrow> Error (''Request failed with status code '' @ String_of (int st))
      | ErrRequest code msg \<Rightarrow> Error msg
      | ErrSetup msg \<Rightarrow> Error msg)"

definition downloadFile ::
  "ambient \<Rightarrow> env \<Rightarrow> string option \<Rightarrow> string \<Rightarrow> world \<Rightarrow> (error + int) \<times> world" where
  "downloadFile rt env from_url outputPath w =
     (case axios env (download_ep env)
             \<lparr>http_method = ''GET'', url = from_url, headers = [], data = None,
              timeout = 60000, responseType = Some ''stream''\<rparr> w of
        (Ok response, w1) \<Rightarrow>
          let w2 = createWriteStream outputPath w1;
              totalBytes = parseInt (content_length response)
          in (case on_data totalBytes outputPath (chunks response) 0 w2 of
                (Inl e, w3) \<Rightarrow> (Inl e, w3)
              | (Inr downloadedBytes, w3) \<Rightarrow>
                  (case ending response of
                     End \<Rightarrow>
                       (case files w3 outputPath of
                          Some written \<Rightarrow> (Inr (int (length written)), w3)
                        | None \<Rightarrow> (Inl (Error ''ENOENT: no such file or directory''), w3))
                   | SocketError e \<Rightarrow> (Inl (Error e), w3)
                   | DiskError e \<Rightarrow> (Inl (Error e), w3)))
      | (ErrResponse st msg err, w1) \<Rightarrow> (Inl (axios_error (ErrResponse st msg err :: download axios_outcome)), w1)
      | (ErrRequest code msg, w1) \<Rightarrow> (Inl (axios_error (ErrRequest code msg :: download axios_outcome)), w1)
      | (ErrSetup msg, w1) \<Rightarrow> (Inl (axios_error (ErrSetup msg :: download axios_outcome)), w1))"

text \<open>
  The byte counts as the specification words them: after each chunk, the sum of the
  lengths of all chunks received so far.
\<close>

fun received_counts :: "int \<Rightarrow> byte list list \<Rightarrow> int list" where
  "received_counts n [] = []"
| "received_counts n (chunk # rest) =
     (n + int (length chunk)) # received_counts (n + int (length chunk)) rest"

subsection \<open>The orchestrator\<close>

definition testHealthEndpoint :: "ambient \<Rightarrow> env \<Rightarrow> world \<Rightarrow> (error + health) \<times> world" where
  "testHealthEndpoint rt env w =
     (case axios env (health_ep env)
             \<lparr>http_method = ''get'', url = Some (template (REMOTE_URL rt) @ ''/health''), headers = [],
              data = None, timeout = 10000, responseType = None\<rparr> w of
        (Ok d, w') \<Rightarrow> (Inr d, w')
      | (ErrResponse st msg err, w') \<Rightarrow>
          (Inl (Error (''Health check failed with status '' @ String_of (int st))), w')
      | (ErrRequest code msg, w') \<Rightarrow>
          (if code = Some ''ECONNREFUSED''
           then (Inl (Error ''Connection refused. Is the server running?''), w')
           else if code = Some ''ETIMEDOUT''
           then (Inl (Error ''Connection timeout. Server may be down or unreachable.''), w')
           else (Inl (Error (''Health check failed: '' @ msg)), w'))
      | (ErrSetup msg, w') \<Rightarrow> (Inl (Error (''Health check failed: '' @ msg)), w'))"

definition requestBody :: "string \<Rightarrow> body" where
  "requestBody baseUrl =
     [(''theme'', JString ''dark''),
      (''profilePhotoUrl'',
         JString ''https://pbs.twimg.com/profile_images/1590968738358079488/IY9Gx6Ok_400x400.jpg''),
      (''profileName'', JString ''Claude Code''),
      (''username'', JString ''anthropic''),
      (''tweetBody'',
         JString (''Testing the video generation API on remote server!'' @ [CHR 0x0A, CHR 0x0A]
                  @ ''URL: '' @ baseUrl @ [CHR 0x0A, CHR 0x0A]
                  @ ''The deployment is working great! '' @ [CHR 0xF0, CHR 0x9F, CHR 0x9A, CHR 0x80]))]"

text \<open>
  The result is the exit code of the process with the error that was caught, if any:
  without a URL the script prints its usage and exits with 1; every error thrown later
  is caught, printed, and the script exits with 1, as the process does when an error
  is caught by nothing.
\<close>

definition testVideoGeneration :: "ambient \<Rightarrow> env \<Rightarrow> world \<Rightarrow> (nat \<times> error option) \<times> world" where
  "testVideoGeneration rt env w =
     (if \<not> truthy (REMOTE_URL rt) then ((1, None), w)
      else
        (case validateUrl rt (REMOTE_URL rt) of
           Inl e \<Rightarrow> ((1, Some e), w)
         | Inr baseUrl \<Rightarrow>
             (if \<not> truthy (HMAC_SECRET rt)
              then ((1, Some (Error (''HMAC_SECRET not found in environment variables. ''
                                     @ ''Please create a .env file.''))), w)
              else
                (case testHealthEndpoint rt env w of
                   (Inl e, w1) \<Rightarrow> ((1, Some e), w1)
                 | (Inr health, w1) \<Rightarrow>
                     (if \<not> has_worker health
                      then ((1, Some (Error (''Cannot read properties of undefined (reading ''
                                             @ [CHR 0x27] @ ''running'' @ [CHR 0x27] @ '')''))), w1)
                      else if \<not> has_jobs health
                      then ((1, Some (Error (''Cannot read properties of undefined (reading ''
                                             @ [CHR 0x27] @ ''pending'' @ [CHR 0x27] @ '')''))), w1)
                      else
                        (case makeAuthenticatedRequest rt env (create_ep env) ''POST''
                                ''/generate-video'' (Some (requestBody baseUrl)) w1 of
                           (Inl e, w2) \<Rightarrow> ((1, Some e), w2)
                         | (Inr createResponse, w2) \<Rightarrow>
                             (case pollJobStatus rt env (jobId createResponse) w2 of
                                (Inl e, w3) \<Rightarrow> ((1, Some e), w3)
                              | (Inr completedJob, w3) \<Rightarrow>
                                  (case downloadFile rt env (downloadUrl completedJob)
                                          (OUTPUT_FILE rt) w3 of
                                     (Inl e, w4) \<Rightarrow> ((1, Some e), w4)
                                   | (Inr fileSize, w4) \<Rightarrow> ((0, None), w4)))))))))"

subsection \<open>Names for the statements\<close>

definition TIMEOUT :: error where
  "TIMEOUT = Error ''Timeout: Job did not complete within 5 minutes''"

text \<open>The bar of \<^verbatim>\<open>logProgress\<close> can be drawn for this percentage.\<close>

definition drawable :: "int \<Rightarrow> bool" where
  "drawable percentage = (0 \<le> (30 * percentage + 50) div 100 \<and> (30 * percentage + 50) div 100 \<le> 30)"

text \<open>The world in which the next iteration of the poll loop starts.\<close>

definition requested :: "ambient \<Rightarrow> env \<Rightarrow> string option \<Rightarrow> world \<Rightarrow> world" where
  "requested rt env job_id w =
     snd (makeAuthenticatedRequest rt env (status_ep env) ''GET'' (''/job/'' @ template job_id)
            None w)"

subsection \<open>Example inputs\<close>

text \<open>
  An ambient for the examples.  Its digest and its URL parser are stand-ins for the
  library functions, chosen so that the examples can be evaluated.
\<close>

definition example_ambient :: ambient where
  "example_ambient =
     \<lparr>REMOTE_URL = Some ''https://api.example.com'',
      HMAC_SECRET = Some ''s3cret'',
      hmac_sha256 = (\<lambda>key message. word_of_nat (foldl (\<lambda>a c. 31 * a + of_char c) 7 (key @ message))),
      URL_parses = (\<lambda>u. 8 < length u),
      OUTPUT_FILE = ''/tmp/test-output-remote.mp4''\<rparr>"

definition job_pending :: job where
  "job_pending = \<lparr>status = ''pending'', progress = Some 0, currentStep = None, error = None,
                   downloadUrl = None\<rparr>"

definition job_processing :: "int \<Rightarrow> string \<Rightarrow> job" where
  "job_processing p step = \<lparr>status = ''processing'', progress = Some p, currentStep = Some step,
                            error = None, downloadUrl = None\<rparr>"

definition job_completed :: job where
  "job_completed = \<lparr>status = ''completed'', progress = Some 100, currentStep = None,
                     error = None,
                     downloadUrl = Some ''https://api.example.com/download/job-1''\<rparr>"

definition job_failed :: job where
  "job_failed = \<lparr>status = ''failed'', progress = Some 60, currentStep = None,
                  error = Some ''encode crashed'', downloadUrl = None\<rparr>"

definition example_env :: env where
  "example_env =
     \<lparr>health_ep = (\<lambda>n cfg. Ok \<lparr>has_worker = True, has_jobs = True\<rparr>),
      create_ep = (\<lambda>n cfg. Ok \<lparr>jobId = Some ''job-1''\<rparr>),
      status_ep = (\<lambda>n cfg. Ok (if n = 0 then job_pending
                                 else if n = 1 then job_processing 10 ''Rendering''
                                 else if n = 2 then job_processing 60 ''Encoding''
                                 else job_completed)),
      download_ep = (\<lambda>n cfg. Ok \<lparr>content_length = Some ''4'', chunks = [[1, 2, 3], [4]],
                                     ending = End\<rparr>),
      latency = (\<lambda>n. 120),
      lag = (\<lambda>n. 3)\<rparr>"

definition pending_env :: env where
  "pending_env = example_env\<lparr>status_ep := (\<lambda>n cfg. Ok job_pending)\<rparr>"

definition failing_env :: env where
  "failing_env = example_env\<lparr>status_ep := (\<lambda>n cfg. Ok job_failed)\<rparr>"

definition broken_env :: env where
  "broken_env = example_env\<lparr>download_ep :=
     (\<lambda>n cfg. Ok \<lparr>content_length = Some ''10'', chunks = [[1, 2, 3], [4]],
                    ending = SocketError ''aborted''\<rparr>)\<rparr>"

definition example_world :: world where
  "example_world = \<lparr>now = 1700000000123, sent = [], console = [], files = Map.empty\<rparr>"

section \<open>Properties\<close>

subsection \<open>Numerals\<close>












text \<open>Up to \<open>2^53\<close> a number prints as its decimal numeral.\<close>

lemma String_of_decimal: "\<bar>t\<bar> < 2 ^ 53 \<Longrightarrow> String_of t = decimal t"
proof -
  assume "\<bar>t\<bar> < 2 ^ 53"
  then have "t < 2 ^ 53" and "- t < 2 ^ 53" by simp_all
  then have "Number_toString t = digits t" and "Number_toString (- t) = digits (- t)"
    unfolding Number_toString_def by (simp_all only: if_True)
  then show ?thesis by (simp only: String_of_def decimal_def)
qed

subsection \<open>Hexadecimal digests\<close>

lemma length_hex_digits: "length (hex_digits k n) = k"
  by (induction k arbitrary: n) simp_all

lemma hex_value_hex_char: "d < 16 \<Longrightarrow> hex_value (hex_char d) = d"
proof -
  assume "d < 16"
  then consider "d = 0" | "d = 1" | "d = 2" | "d = 3" | "d = 4" | "d = 5" | "d = 6" | "d = 7"
    | "d = 8" | "d = 9" | "d = 10" | "d = 11" | "d = 12" | "d = 13" | "d = 14" | "d = 15"
    by atomize_elim arith
  then show ?thesis
    by cases (simp_all add: hex_value_def hex_char_def)
qed

lemma hex_numeral_value_hex_digits: "hex_numeral_value (hex_digits k n) = n mod 16 ^ k"
proof (induction k arbitrary: n)
  case 0
  show ?case by (simp add: hex_numeral_value_def)
next
  case (Suc k)
  have "hex_numeral_value (hex_digits (Suc k) n)
          = 16 * hex_numeral_value (hex_digits k (n div 16)) + n mod 16"
    by (simp add: hex_numeral_value_def hex_value_hex_char)
  also have "\<dots> = 16 * (n div 16 mod 16 ^ k) + n mod 16" by (simp add: Suc.IH)
  also have "\<dots> = n mod 16 ^ Suc k" by (simp add: mod_mult2_eq)
  finally show ?case .
qed

lemma hex_numeral_value_digest_hex: "hex_numeral_value (digest_hex w) = unat w"
proof -
  have "unat w < 16 ^ 64"
    using unsigned_less [of w, where ?'a = nat] by simp
  then show ?thesis
    by (simp only: digest_hex_def hex_numeral_value_hex_digits mod_less)
qed


lemma length_digest_hex: "length (digest_hex w) = 64"
  by (simp add: digest_hex_def length_hex_digits)

lemma hex_char_lower: "d < 16 \<Longrightarrow> hex_char d \<in> set ''0123456789abcdef''"
  unfolding hex_char_def by (rule nth_mem) simp

lemma set_hex_digits: "set (hex_digits k n) \<subseteq> set ''0123456789abcdef''"
proof (induction k arbitrary: n)
  case 0
  show ?case by simp
next
  case (Suc k)
  have "hex_char (n mod 16) \<in> set ''0123456789abcdef''" by (rule hex_char_lower) simp
  with Suc show ?case by simp
qed

lemma set_digest_hex: "set (digest_hex w) \<subseteq> set ''0123456789abcdef''"
  unfolding digest_hex_def by (rule set_hex_digits)

lemma hex_digits_numeral: "hex_digits (numeral k) n = hex_digits (pred_numeral k) (n div 16) @ [hex_char (n mod 16)]"
  by (simp only: numeral_eq_Suc [of k] hex_digits.simps)

subsection \<open>The signature\<close>



lemma generateSignature_secret:
  "HMAC_SECRET rt = Some s \<Longrightarrow> s \<noteq> [] \<Longrightarrow>
   generateSignature rt t B = Inr (digest_hex (hmac_sha256 rt s (signed_message t B)))"
  by (simp add: generateSignature_def signed_message_def digest_def update_def createHmac_def)

lemma generateSignature_no_secret:
  "HMAC_SECRET rt = None \<or> HMAC_SECRET rt = Some [] \<Longrightarrow>
   generateSignature rt t B = Inl (Error ''HMAC_SECRET environment variable is not set'')"
  by (auto simp: generateSignature_def)

subsection \<open>Values of the examples\<close>

lemma example_secret: "HMAC_SECRET example_ambient = Some ''s3cret''"
  by (simp add: example_ambient_def)

lemma hmac_example:
  "hmac_sha256 example_ambient key message
     = word_of_nat (foldl (\<lambda>a c. 31 * a + of_char c) 7 (key @ message))"
  by (simp add: example_ambient_def)

lemma signed_message_example:
  "signed_message 1700000000 [(''theme'', JString ''dark'')]
     = ''1700000000:{'' @ quote ''theme'' @ '':'' @ quote ''dark'' @ ''}''"
  "signed_message 1700000001 [(''theme'', JString ''dark'')]
     = ''1700000001:{'' @ quote ''theme'' @ '':'' @ quote ''dark'' @ ''}''"
  "signed_message 1700000000 [] = ''1700000000:{}''"
  by code_simp+

lemma hmac_example_values:
  "hmac_sha256 example_ambient ''s3cret'' (''1700000000:{'' @ quote ''theme'' @ '':'' @ quote ''dark'' @ ''}'')
     = 176603064166462718673958327206632701694087290131560"
  "hmac_sha256 example_ambient ''s3cret'' (''1700000001:{'' @ quote ''theme'' @ '':'' @ quote ''dark'' @ ''}'')
     = 176603064166462718673958349756749475856830468814471"
  "hmac_sha256 example_ambient ''s3cret'' ''1700000000:{}'' = 233310627047891718334461139217"
  "hmac_sha256 example_ambient ''s3cret'' ''1e+21:{}'' = 8149407820338663350731"
  "hmac_sha256 example_ambient ''s3cret'' ''1000000000000000000000:{}''
     = 183770097987854411161840581345537240820644971896"
  by (simp_all add: hmac_example quote_def escape_def)

lemma digest_hex_values:
  "digest_hex 176603064166462718673958327206632701694087290131560
     = ''000000000000000000000078d6334897f50adda928b4d68dabcb43ff788b9468''"
  "digest_hex 176603064166462718673958349756749475856830468814471
     = ''000000000000000000000078d6334897f50adda928c77db9f36d61d93d1d7687''"
  "digest_hex 233310627047891718334461139217
     = ''0000000000000000000000000000000000000002f1de070376c70ae5e07e5911''"
  "digest_hex 8149407820338663350731
     = ''0000000000000000000000000000000000000000000001b9c7c0a32f546961cb''"
  "digest_hex 183770097987854411161840581345537240820644971896
     = ''000000000000000000000000203089441642886ef320fd3636873183d8460578''"
  by (simp_all add: digest_hex_def hex_digits_numeral hex_char_def)

lemma large_numbers:
  "String_of (10 ^ 21) = ''1e+21''"
  "decimal (10 ^ 21) = ''1000000000000000000000''"
  "String_of (2 ^ 63) = ''9223372036854776000''"
  "decimal (2 ^ 63) = ''9223372036854775808''"
  by code_simp+

lemma JSON_stringify_values:
  "JSON_stringify [] = ''{}''"
  "JSON_stringify [(''a'', JUndefined)] = ''{}''"
  by code_simp+

subsection \<open>validateUrl\<close>

lemma prefix_butlast:
  assumes "u \<noteq> []"
  shows "prefix p (butlast u) \<longleftrightarrow> prefix p u \<and> p \<noteq> u"
proof -
  from assms have u: "u = butlast u @ [last u]" by simp
  have "prefix p (butlast u @ [last u]) \<longleftrightarrow> p = butlast u @ [last u] \<or> prefix p (butlast u)"
    by (rule prefix_snoc)
  moreover have "prefix p (butlast u) \<Longrightarrow> p \<noteq> butlast u @ [last u]"
    by (auto dest: prefix_length_le)
  ultimately show ?thesis using u by metis
qed

lemma prefix_remove_trailing_slash:
  assumes "u \<noteq> p"
  shows "prefix p (remove_trailing_slash u) \<longleftrightarrow> prefix p u"
  using assms prefix_butlast [of u p] by (auto simp: remove_trailing_slash_def)

lemma validateUrl_normal_form:
  assumes "u \<noteq> []" and "u \<noteq> ''http://''" and "u \<noteq> ''https://''"
  shows "validateUrl rt (Some u) =
           (if URL_parses rt (spec_normal_form u) then Inr (spec_normal_form u)
            else Inl (Error (''Invalid URL format: '' @ spec_normal_form u)))"
  using assms prefix_remove_trailing_slash [of u "''http://''"]
    prefix_remove_trailing_slash [of u "''https://''"]
  by (simp add: validateUrl_def spec_normal_form_def Let_def)

subsection \<open>The examples\<close>

lemma example_clock: "now example_world = 1700000000123" "sent example_world = []"
  by (simp_all add: example_world_def)

lemma example_timestamp: "decimal 1700000000 = ''1700000000''"
  by code_simp

lemma example_String_of: "String_of 1700000000 = ''1700000000''"
  by code_simp

lemma example_url: "template (REMOTE_URL example_ambient) = ''https://api.example.com''"
  by (simp add: example_ambient_def template_def)

lemma example_endpoints:
  "create_ep example_env n cfg = Ok \<lparr>jobId = Some ''job-1''\<rparr>"
  "status_ep example_env n cfg =
     Ok (if n = 0 then job_pending
         else if n = 1 then job_processing 10 ''Rendering''
         else if n = 2 then job_processing 60 ''Encoding''
         else job_completed)"
  "latency example_env n = 120"
  "lag example_env n = 3"
  by (simp_all add: example_env_def)

lemma example_signature:
  "generateSignature example_ambient 1700000000 [(''theme'', JString ''dark'')]
     = Inr ''000000000000000000000078d6334897f50adda928b4d68dabcb43ff788b9468''"
  by (subst generateSignature_secret [OF example_secret])
    (simp_all only: signed_message_example hmac_example_values digest_hex_values, simp)

subsection \<open>Claims about the signature\<close>

text \<open>
  C3, as the specification has it: for every integer timestamp \<open>t\<close>, body \<open>B\<close> and
  non-empty secret \<open>s\<close>, the signature is the lowercase hexadecimal HMAC-SHA256 digest,
  keyed with \<open>s\<close>, of the decimal string of \<open>t\<close>, a colon and the JSON serialisation
  of \<open>B\<close>.  This fails for large timestamps: the code signs \<^verbatim>\<open>String(timestamp)\<close>, and
  the number \<open>10^21\<close> prints as \<^verbatim>\<open>1e+21\<close>, the number \<open>2^63\<close> as
  \<^verbatim>\<open>9223372036854776000\<close>.  With the secret \<^verbatim>\<open>s3cret\<close> and any keyed hash \<open>h\<close>, the
  signature of the empty body at \<open>10^21\<close> is the digest of \<^verbatim>\<open>1e+21:{}\<close>; with the hash of
  the example it is another string than the digest of the decimal string, a colon and
  \<^verbatim>\<open>{}\<close>.
\<close>

theorem C3_counterexample:
  "String_of (10 ^ 21) = ''1e+21'' \<and> decimal (10 ^ 21) = ''1000000000000000000000''
   \<and> String_of (2 ^ 63) = ''9223372036854776000'' \<and> decimal (2 ^ 63) = ''9223372036854775808''
   \<and> (\<forall>h. generateSignature (example_ambient\<lparr>hmac_sha256 := h\<rparr>) (10 ^ 21) []
            = Inr (digest_hex (h ''s3cret'' ''1e+21:{}'')))
   \<and> generateSignature example_ambient (10 ^ 21) []
        = Inr ''0000000000000000000000000000000000000000000001b9c7c0a32f546961cb''
   \<and> digest_hex (hmac_sha256 example_ambient ''s3cret''
                    (decimal (10 ^ 21) @ '':'' @ JSON_stringify []))
        = ''000000000000000000000000203089441642886ef320fd3636873183d8460578''"
proof -
  have message: "signed_message (10 ^ 21) [] = ''1e+21:{}''"
    unfolding signed_message_def large_numbers JSON_stringify_values by simp
  have "generateSignature (example_ambient\<lparr>hmac_sha256 := h\<rparr>) (10 ^ 21) []
          = Inr (digest_hex (h ''s3cret'' ''1e+21:{}''))" for h
    by (subst generateSignature_secret [where s = "''s3cret''"])
      (simp_all only: message, simp_all add: example_ambient_def)
  moreover have "generateSignature example_ambient (10 ^ 21) []
        = Inr ''0000000000000000000000000000000000000000000001b9c7c0a32f546961cb''"
    by (subst generateSignature_secret [OF example_secret])
      (simp_all only: message hmac_example_values digest_hex_values, simp)
  moreover have "digest_hex (hmac_sha256 example_ambient ''s3cret''
                    (decimal (10 ^ 21) @ '':'' @ JSON_stringify []))
        = ''000000000000000000000000203089441642886ef320fd3636873183d8460578''"
    unfolding large_numbers JSON_stringify_values
    by (simp add: hmac_example_values digest_hex_values)
  ultimately show ?thesis
    by (simp only: large_numbers simp_thms)
qed

text \<open>
  C3, amended: for every integer timestamp \<open>t\<close> below \<open>2^53\<close> in absolute value (the
  times of \<^verbatim>\<open>Date.now()\<close> are among them), every body \<open>B\<close> and every non-empty secret
  \<open>s\<close>, \<open>generateSignature\<close> returns a string of 64 lowercase hexadecimal digits, and the
  number that they write is the HMAC-SHA256 digest, keyed with \<open>s\<close>, of the decimal
  string of \<open>t\<close>, a colon and the JSON serialisation of \<open>B\<close>.
\<close>

theorem C3_signature_is_hex_hmac:
  assumes "HMAC_SECRET rt = Some s" and "s \<noteq> []" and "\<bar>t\<bar> < 2 ^ 53"
  shows "\<exists>sig. generateSignature rt t B = Inr sig
           \<and> length sig = 64 \<and> set sig \<subseteq> set ''0123456789abcdef''
           \<and> hex_numeral_value sig
               = unat (hmac_sha256 rt s (decimal t @ '':'' @ JSON_stringify B))"
proof (intro exI conjI)
  show "generateSignature rt t B
          = Inr (digest_hex (hmac_sha256 rt s (decimal t @ '':'' @ JSON_stringify B)))"
    using generateSignature_secret [OF assms(1,2)]
    by (simp only: signed_message_def String_of_decimal [OF assms(3)])
qed (simp_all only: length_digest_hex set_digest_hex hex_numeral_value_digest_hex)

theorem C3_witness:
  "HMAC_SECRET example_ambient = Some ''s3cret'' \<and> ''s3cret'' \<noteq> []
   \<and> \<bar>1700000000 :: int\<bar> < 2 ^ 53
   \<and> generateSignature example_ambient 1700000000 [(''theme'', JString ''dark'')]
       = Inr ''000000000000000000000078d6334897f50adda928b4d68dabcb43ff788b9468''
   \<and> hex_numeral_value ''000000000000000000000078d6334897f50adda928b4d68dabcb43ff788b9468''
       = unat (hmac_sha256 example_ambient ''s3cret''
                 (''1700000000:{'' @ quote ''theme'' @ '':'' @ quote ''dark'' @ ''}''))"
proof -
  have nonempty: "''s3cret'' \<noteq> []" by simp
  have bound: "\<bar>1700000000 :: int\<bar> < 2 ^ 53" by simp
  have message: "decimal 1700000000 @ '':'' @ JSON_stringify [(''theme'', JString ''dark'')]
                   = ''1700000000:{'' @ quote ''theme'' @ '':'' @ quote ''dark'' @ ''}''"
    using signed_message_example(1) by (simp only: signed_message_def String_of_decimal [OF bound])
  have signature: "generateSignature example_ambient 1700000000 [(''theme'', JString ''dark'')]
       = Inr ''000000000000000000000078d6334897f50adda928b4d68dabcb43ff788b9468''"
    by (subst generateSignature_secret [OF example_secret])
      (simp_all only: signed_message_example hmac_example_values digest_hex_values, simp)
  from C3_signature_is_hex_hmac [OF example_secret nonempty bound,
      of "[(''theme'', JString ''dark'')]"]
  obtain sig where "generateSignature example_ambient 1700000000 [(''theme'', JString ''dark'')]
        = Inr sig"
    and "hex_numeral_value sig
           = unat (hmac_sha256 example_ambient ''s3cret''
               (decimal 1700000000 @ '':'' @ JSON_stringify [(''theme'', JString ''dark'')]))"
    by blast
  with signature message
  have "hex_numeral_value ''000000000000000000000078d6334897f50adda928b4d68dabcb43ff788b9468''
       = unat (hmac_sha256 example_ambient ''s3cret''
                 (''1700000000:{'' @ quote ''theme'' @ '':'' @ quote ''dark'' @ ''}''))"
    by (simp only: sum.inject)
  with example_secret nonempty bound signature show ?thesis by (simp only: simp_thms)
qed




subsection \<open>Claims about validateUrl and the missing secret\<close>

text \<open>
  C10, as the specification has it: for every non-empty input, \<open>validateUrl\<close> returns
  the input with one trailing slash removed and, when the input starts with neither
  \<^verbatim>\<open>http://\<close> nor \<^verbatim>\<open>https://\<close>, with \<^verbatim>\<open>https://\<close> prepended.  The code
  removes the slash first and tests the prefix afterwards, so for the input
  \<^verbatim>\<open>http://\<close>, which starts with \<^verbatim>\<open>http://\<close>, it tests \<^verbatim>\<open>http:/\<close> and
  prepends the scheme: the normal form is \<^verbatim>\<open>https://http:/\<close> and not
  \<^verbatim>\<open>http:/\<close>.
\<close>

theorem C10_counterexample:
  "prefix ''http://'' ''http://''
   \<and> spec_normal_form ''http://'' = ''http:/''
   \<and> (\<forall>rt. validateUrl rt (Some ''http://'') =
         (if URL_parses rt ''https://http:/'' then Inr ''https://http:/''
          else Inl (Error ''Invalid URL format: https://http:/'')))
   \<and> validateUrl example_ambient (Some ''http://'') = Inr ''https://http:/''"
  by (simp add: validateUrl_def spec_normal_form_def remove_trailing_slash_def example_ambient_def)

text \<open>
  C10, amended: \<open>validateUrl\<close> raises \<^verbatim>\<open>URL is required\<close> for an absent and for an
  empty input; for every non-empty input other than \<^verbatim>\<open>http://\<close> and
  \<^verbatim>\<open>https://\<close> it takes the input with one trailing slash removed and, when the
  input starts with neither \<^verbatim>\<open>http://\<close> nor \<^verbatim>\<open>https://\<close>, with
  \<^verbatim>\<open>https://\<close> prepended, returns this normal form when it parses as a URL and
  raises \<^verbatim>\<open>Invalid URL format\<close> with it otherwise; an input that starts with
  \<^verbatim>\<open>http://\<close> or \<^verbatim>\<open>https://\<close>, does not end with a slash and parses is
  returned unchanged.
\<close>

theorem C10_validateUrl:
  "validateUrl rt None = Inl (Error ''URL is required'')
   \<and> validateUrl rt (Some []) = Inl (Error ''URL is required'')
   \<and> (u \<noteq> [] \<and> u \<noteq> ''http://'' \<and> u \<noteq> ''https://'' \<longrightarrow>
        validateUrl rt (Some u) =
          (if URL_parses rt (spec_normal_form u) then Inr (spec_normal_form u)
           else Inl (Error (''Invalid URL format: '' @ spec_normal_form u))))
   \<and> ((prefix ''http://'' u \<or> prefix ''https://'' u) \<and> last u \<noteq> CHR ''/'' \<and> URL_parses rt u \<longrightarrow>
        validateUrl rt (Some u) = Inr u)"
proof (intro conjI impI)
  show "validateUrl rt None = Inl (Error ''URL is required'')"
    by (simp add: validateUrl_def)
  show "validateUrl rt (Some []) = Inl (Error ''URL is required'')"
    by (simp add: validateUrl_def)
next
  assume "u \<noteq> [] \<and> u \<noteq> ''http://'' \<and> u \<noteq> ''https://''"
  then show "validateUrl rt (Some u) =
          (if URL_parses rt (spec_normal_form u) then Inr (spec_normal_form u)
           else Inl (Error (''Invalid URL format: '' @ spec_normal_form u)))"
    by (simp add: validateUrl_normal_form)
next
  assume a: "(prefix ''http://'' u \<or> prefix ''https://'' u) \<and> last u \<noteq> CHR ''/'' \<and> URL_parses rt u"
  then have "u \<noteq> []" by auto
  moreover from a have "remove_trailing_slash u = u" by (simp add: remove_trailing_slash_def)
  ultimately show "validateUrl rt (Some u) = Inr u"
    using a by (auto simp: validateUrl_def Let_def)
qed

theorem C10_witness:
  "validateUrl example_ambient (Some ''my-api.railway.app/'') = Inr ''https://my-api.railway.app''
   \<and> validateUrl example_ambient (Some ''http://localhost:3000'') = Inr ''http://localhost:3000''
   \<and> validateUrl example_ambient (Some ''/'') = Inl (Error ''Invalid URL format: https://'')"
proof -
  have n1: "spec_normal_form ''my-api.railway.app/'' = ''https://my-api.railway.app''"
    by (simp add: spec_normal_form_def remove_trailing_slash_def)
  have n2: "spec_normal_form ''/'' = ''https://''"
    by (simp add: spec_normal_form_def remove_trailing_slash_def)
  have p: "URL_parses example_ambient u \<longleftrightarrow> length u > 8" for u
    by (simp add: example_ambient_def)
  have "validateUrl example_ambient (Some ''my-api.railway.app/'') = Inr ''https://my-api.railway.app''"
    using C10_validateUrl [of example_ambient "''my-api.railway.app/''", THEN conjunct2,
        THEN conjunct2, THEN conjunct1]
    by (simp add: n1 p)
  moreover
  have "validateUrl example_ambient (Some ''http://localhost:3000'') = Inr ''http://localhost:3000''"
    using C10_validateUrl [of example_ambient "''http://localhost:3000''", THEN conjunct2,
        THEN conjunct2, THEN conjunct2]
    by (simp add: p)
  moreover
  have "validateUrl example_ambient (Some ''/'') = Inl (Error ''Invalid URL format: https://'')"
    using C10_validateUrl [of example_ambient "''/''", THEN conjunct2, THEN conjunct2, THEN conjunct1]
    by (simp add: n2 p)
  ultimately show ?thesis by simp
qed

text \<open>
  C6: if the signing secret is absent or empty, the orchestrator exits with code 1 and
  the world is as it was before, so no request was sent and nothing was written: when
  the URL is given and valid, the error is the one about the missing secret, raised
  before the health probe.  \<open>generateSignature\<close> itself raises its error, and
  \<open>makeAuthenticatedRequest\<close> with a body fails with it and leaves the world as it
  was, before any HTTP call.
\<close>

theorem C6_missing_secret_fails_before_any_request:
  assumes "HMAC_SECRET rt = None \<or> HMAC_SECRET rt = Some []"
  shows "fst (fst (testVideoGeneration rt env w)) = 1
       \<and> snd (testVideoGeneration rt env w) = w
       \<and> (truthy (REMOTE_URL rt) \<and> validateUrl rt (REMOTE_URL rt) = Inr baseUrl \<longrightarrow>
            snd (fst (testVideoGeneration rt env w))
              = Some (Error ''HMAC_SECRET not found in environment variables. Please create a .env file.''))
       \<and> generateSignature rt t b = Inl (Error ''HMAC_SECRET environment variable is not set'')
       \<and> makeAuthenticatedRequest rt env ep meth endpoint (Some b) w
            = (Inl (Error ''HMAC_SECRET environment variable is not set''), w)"
proof -
  from assms have falsy: "\<not> truthy (HMAC_SECRET rt)" by (auto simp: truthy_def)
  have "fst (fst (testVideoGeneration rt env w)) = 1"
    using falsy by (simp add: testVideoGeneration_def split: sum.split)
  moreover have "snd (testVideoGeneration rt env w) = w"
    using falsy by (simp add: testVideoGeneration_def split: sum.split)
  moreover have "truthy (REMOTE_URL rt) \<and> validateUrl rt (REMOTE_URL rt) = Inr baseUrl \<longrightarrow>
            snd (fst (testVideoGeneration rt env w))
              = Some (Error ''HMAC_SECRET not found in environment variables. Please create a .env file.'')"
    using falsy by (simp add: testVideoGeneration_def)
  moreover have "makeAuthenticatedRequest rt env ep meth endpoint (Some b) w
            = (Inl (Error ''HMAC_SECRET environment variable is not set''), w)"
    by (simp add: makeAuthenticatedRequest_def generateSignature_no_secret [OF assms])
  ultimately show ?thesis
    by (simp add: generateSignature_no_secret [OF assms])
qed

theorem C6_witness:
  "(HMAC_SECRET (example_ambient\<lparr>HMAC_SECRET := None\<rparr>) = None
      \<or> HMAC_SECRET (example_ambient\<lparr>HMAC_SECRET := None\<rparr>) = Some [])
   \<and> testVideoGeneration (example_ambient\<lparr>HMAC_SECRET := None\<rparr>) example_env example_world
       = ((1, Some (Error ''HMAC_SECRET not found in environment variables. Please create a .env file.'')),
          example_world)
   \<and> makeAuthenticatedRequest (example_ambient\<lparr>HMAC_SECRET := None\<rparr>) example_env
       (create_ep example_env) ''POST'' ''/generate-video'' (Some []) example_world
       = (Inl (Error ''HMAC_SECRET environment variable is not set''), example_world)"
proof -
  have h: "HMAC_SECRET (example_ambient\<lparr>HMAC_SECRET := None\<rparr>) = None
      \<or> HMAC_SECRET (example_ambient\<lparr>HMAC_SECRET := None\<rparr>) = Some []"
    by simp
  have url: "truthy (REMOTE_URL (example_ambient\<lparr>HMAC_SECRET := None\<rparr>))
    \<and> validateUrl (example_ambient\<lparr>HMAC_SECRET := None\<rparr>)
          (REMOTE_URL (example_ambient\<lparr>HMAC_SECRET := None\<rparr>)) = Inr ''https://api.example.com''"
    by (simp add: example_ambient_def truthy_def validateUrl_def remove_trailing_slash_def)
  from C6_missing_secret_fails_before_any_request [OF h,
      where env = example_env and w = example_world and baseUrl = "''https://api.example.com''"
        and t = 0 and b = "[]" and ep = "create_ep example_env" and meth = "''POST''"
        and endpoint = "''/generate-video''"]
    url h
  show ?thesis
    by (simp add: prod_eq_iff)
qed

subsection \<open>Claims about makeAuthenticatedRequest\<close>

text \<open>
  C7: a call of \<open>makeAuthenticatedRequest\<close> at a time of \<^verbatim>\<open>Date.now()\<close> sends one
  request, or none when a body is given and the secret is missing.  The request sent
  carries the header \<^verbatim>\<open>X-Timestamp\<close> with the decimal string of the seconds of the
  time of the call, it carries the body as its payload, it carries the header
  \<^verbatim>\<open>X-Signature\<close> if and only if a body is given, and then the header is the
  signature that \<open>generateSignature\<close> returns for the same seconds and the same body.
\<close>

theorem C7_headers_of_the_request_sent:
  assumes "valid_time (now w)"
  shows "\<exists>new. sent (snd (makeAuthenticatedRequest rt env ep meth endpoint body w)) = sent w @ new
     \<and> length new = (if body = None \<or> truthy (HMAC_SECRET rt) then 1 else 0)
     \<and> (\<forall>(t, cfg) \<in> set new.
           t = now w
         \<and> map_of (headers cfg) ''X-Timestamp'' = Some (decimal (now w div 1000))
         \<and> data cfg = body
         \<and> (map_of (headers cfg) ''X-Signature'' \<noteq> None \<longleftrightarrow> body \<noteq> None)
         \<and> (\<forall>b. body = Some b \<longrightarrow>
               (\<exists>signature. map_of (headers cfg) ''X-Signature'' = Some signature
                  \<and> generateSignature rt (now w div 1000) b = Inr signature)))"
proof -
  from assms have "\<bar>now w div 1000\<bar> < 2 ^ 53"
    unfolding valid_time_def by simp
  then have stamp: "String_of (now w div 1000) = decimal (now w div 1000)"
    by (rule String_of_decimal)
  show ?thesis
  proof (cases "body = None \<or> truthy (HMAC_SECRET rt)")
    case False
    then obtain b where b: "body = Some b" and "HMAC_SECRET rt = None \<or> HMAC_SECRET rt = Some []"
      by (auto simp: truthy_def split: option.splits)
    then have "makeAuthenticatedRequest rt env ep meth endpoint body w
              = (Inl (Error ''HMAC_SECRET environment variable is not set''), w)"
      by (simp add: makeAuthenticatedRequest_def generateSignature_no_secret)
    with False show ?thesis by simp
  next
    case True
    show ?thesis
    proof (cases body)
      case None
      then show ?thesis
        by (auto simp: makeAuthenticatedRequest_def axios_def Let_def stamp
            split: axios_outcome.splits)
    next
      case (Some b)
      with True obtain s where s: "HMAC_SECRET rt = Some s" "s \<noteq> []"
        by (auto simp: truthy_def split: option.splits)
      then obtain signature where sig: "generateSignature rt (now w div 1000) b = Inr signature"
        by (auto simp: generateSignature_def)
      with Some True show ?thesis
        by (auto simp: makeAuthenticatedRequest_def axios_def Let_def stamp
            split: axios_outcome.splits)
    qed
  qed
qed

theorem C7_witness:
  "valid_time (now example_world)
   \<and> sent (snd (makeAuthenticatedRequest example_ambient example_env (create_ep example_env)
                  ''POST'' ''/generate-video'' (Some [(''theme'', JString ''dark'')]) example_world))
       = [(1700000000123,
           \<lparr>http_method = ''POST'', url = Some ''https://api.example.com/generate-video'',
            headers = [(''Content-Type'', ''application/json''), (''X-Timestamp'', ''1700000000''),
                       (''X-Signature'',
                        ''000000000000000000000078d6334897f50adda928b4d68dabcb43ff788b9468'')],
            data = Some [(''theme'', JString ''dark'')], timeout = 30000, responseType = None\<rparr>)]
   \<and> sent (snd (makeAuthenticatedRequest example_ambient example_env (status_ep example_env)
                  ''GET'' ''/job/job-1'' None example_world))
       = [(1700000000123,
           \<lparr>http_method = ''GET'', url = Some ''https://api.example.com/job/job-1'',
            headers = [(''Content-Type'', ''application/json''), (''X-Timestamp'', ''1700000000'')],
            data = None, timeout = 30000, responseType = None\<rparr>)]"
proof -
  have valid: "valid_time (now example_world)"
    by (simp add: example_world_def valid_time_def)
  have secret: "truthy (HMAC_SECRET example_ambient)"
    by (simp add: example_ambient_def truthy_def)
  note signature = example_signature
  let ?post = "makeAuthenticatedRequest example_ambient example_env (create_ep example_env)
                 ''POST'' ''/generate-video'' (Some [(''theme'', JString ''dark'')]) example_world"
  let ?get = "makeAuthenticatedRequest example_ambient example_env (status_ep example_env)
                 ''GET'' ''/job/job-1'' None example_world"
  from C7_headers_of_the_request_sent [OF valid, of example_ambient example_env
      "create_ep example_env" "''POST''" "''/generate-video''"
      "Some [(''theme'', JString ''dark'')]"]
  obtain t cfg where post: "sent (snd ?post) = [(t, cfg)]" "t = 1700000000123"
      "map_of (headers cfg) ''X-Timestamp'' = Some ''1700000000''"
      "data cfg = Some [(''theme'', JString ''dark'')]"
      "map_of (headers cfg) ''X-Signature''
         = Some ''000000000000000000000078d6334897f50adda928b4d68dabcb43ff788b9468''"
    by (auto simp: secret example_clock example_timestamp signature length_Suc_conv)
  have "sent (snd ?post)
       = [(1700000000123,
           \<lparr>http_method = ''POST'', url = Some ''https://api.example.com/generate-video'',
            headers = [(''Content-Type'', ''application/json''), (''X-Timestamp'', ''1700000000''),
                       (''X-Signature'',
                        ''000000000000000000000078d6334897f50adda928b4d68dabcb43ff788b9468'')],
            data = Some [(''theme'', JString ''dark'')], timeout = 30000, responseType = None\<rparr>)]"
    using post
    by (simp add: makeAuthenticatedRequest_def axios_def Let_def example_clock signature
        example_String_of example_url example_endpoints)
  moreover have "sent (snd ?get)
       = [(1700000000123,
           \<lparr>http_method = ''GET'', url = Some ''https://api.example.com/job/job-1'',
            headers = [(''Content-Type'', ''application/json''), (''X-Timestamp'', ''1700000000'')],
            data = None, timeout = 30000, responseType = None\<rparr>)]"
    by (simp add: makeAuthenticatedRequest_def axios_def Let_def example_clock
        example_String_of example_url example_endpoints)
  ultimately show ?thesis using valid by (simp only: simp_thms)
qed

end
